theory Spec2Isabelle
  imports Complex_Main
begin

section \<open>Data model\<close>

text \<open>
  The ingestion pipeline (\<^verbatim>\<open>transactionProcessor.ts\<close>) and the FIFO cost-basis ledger
  (\<^verbatim>\<open>FIFOCostBasisCalculator\<close>) work on four tables of a relational store. A table is a
  list of rows in insertion order. Token amounts are counts of the smallest unit
  (\<^verbatim>\<open>amount: string; // Token amount in smallest unit\<close>, handled with big.js, whose
  addition, subtraction and comparison are exact): they are integers here, of any size,
  and an event carries its amount already parsed. The prices and the profit-and-loss
  figures that the pipeline stores are rationals here: their rounding to IEEE doubles is
  not part of the model of the pipeline. The profit and loss zones compare doubles, and
  there the doubles are modelled. Timestamps are seconds. The optional fields of an event
  (block hash, instruction indices) are only copied into the transaction row and are
  left out.
\<close>

datatype transaction_type = Buy | Sell | Transfer

record TokenTransaction =
  signature :: string
  tokenAddress :: string
  walletAddress :: string
  transactionType :: transaction_type
  amount :: int
  pricePerToken :: rat
  totalValue :: rat
  blockTime :: int
  slot :: nat

record token_row =
  tok_id :: nat
  address :: string

record transaction_row =
  tx_id :: nat
  tx_token_id :: nat
  tx_signature :: string
  tx_wallet_address :: string
  tx_transaction_type :: transaction_type
  tx_amount :: int
  tx_price_per_token :: rat
  tx_total_value :: rat
  tx_block_time :: int
  tx_slot :: nat

record holder_row =
  h_id :: nat
  h_token_id :: nat
  wallet_address :: string
  current_balance :: int
  total_bought :: int
  total_sold :: int
  average_buy_price :: rat
  realized_pnl :: rat
  first_buy_timestamp :: "int option"
  last_transaction_timestamp :: "int option"
  is_active :: bool

record cost_basis_row =
  cb_id :: nat
  holder_id :: nat
  transaction_id :: nat
  remaining_amount :: int
  original_amount :: int
  price_per_token :: rat
  purchase_timestamp :: int

text \<open>
  The store: the committed tables and the sequence that hands out row ids
  (\<^verbatim>\<open>RETURNING id\<close>). A sequence value is never handed out twice, also after a
  rollback.
\<close>

record database =
  tokens :: "token_row list"
  transactions :: "transaction_row list"
  holders :: "holder_row list"
  cost_basis :: "cost_basis_row list"
  id_seq :: nat

definition empty_database :: database where
  "empty_database =
     \<lparr>tokens = [], transactions = [], holders = [], cost_basis = [], id_seq = 0\<rparr>"

text \<open>
  What the source logs at level warn or error; debug and info messages are left out.
\<close>

datatype log_entry =
    Warn_NoCostBasis nat
  | Warn_Oversell int int
  | Error_AddPurchase
  | Error_ProcessSale
  | Error_TotalCostBasis
  | Error_Transaction string
  | Error_Queue

text \<open>
  Every statement sent to the store can be rejected for a reason outside the program
  (a lost connection, a timeout). A fault names the statement of
  \<^verbatim>\<open>processTransaction\<close> (and of the functions it calls) whose promise rejects in
  that way; \<open>None\<close> is a run in which no statement does.
\<close>

datatype stage =
    ExistsCheck
  | EnsureToken
  | InsertTransaction
  | EnsureHolder
  | LedgerOp
  | TotalCostBasis
  | UpdateHolder
  | Commit

type_synonym fault = "stage option"

text \<open>
  What a promise rejects with: a failure of the store at a statement; the
  \<^verbatim>\<open>TypeError\<close> of a call of something that is no function; the store's
  \<open>bigint out of range\<close>, raised by a cast to \<^verbatim>\<open>BIGINT\<close>; the \<open>Invalid number\<close> error
  of big.js.
\<close>

datatype error = StoreError stage | TypeError | BigintOutOfRange | InvalidNumber

datatype outcome = Resolved | Threw error

section \<open>FIFO cost-basis ledger\<close>

text \<open>
  \<^verbatim>\<open>addPurchase\<close>: one INSERT on a connection of its own (autocommit); the new lot has
  \<open>remaining_amount = original_amount = amount\<close> (\<^verbatim>\<open>$3, $3\<close>).
\<close>

definition addPurchase ::
  "cost_basis_row list \<Rightarrow> nat \<Rightarrow> nat \<Rightarrow> nat \<Rightarrow> int \<Rightarrow> rat \<Rightarrow> int \<Rightarrow> cost_basis_row list" where
  "addPurchase cb new_id holderId transactionId amt price ts =
     cb @ [\<lparr>cb_id = new_id, holder_id = holderId, transaction_id = transactionId,
             remaining_amount = amt, original_amount = amt,
             price_per_token = price, purchase_timestamp = ts\<rparr>]"

text \<open>
  The SELECT of \<^verbatim>\<open>processSale\<close>:
  \<^verbatim>\<open>WHERE holder_id = $1 AND remaining_amount > 0 ORDER BY purchase_timestamp ASC, created_at ASC\<close>.
  The table is in creation order and \<open>sort_key\<close> is stable, so creation order breaks ties.
\<close>

definition open_lots :: "cost_basis_row list \<Rightarrow> nat \<Rightarrow> cost_basis_row list" where
  "open_lots cb holderId =
     sort_key purchase_timestamp
       (filter (\<lambda>e. holder_id e = holderId \<and> 0 < remaining_amount e) cb)"

text \<open>\<^verbatim>\<open>UPDATE cost_basis SET remaining_amount = $1 WHERE id = $2\<close>\<close>

definition update_remaining :: "cost_basis_row list \<Rightarrow> nat \<Rightarrow> int \<Rightarrow> cost_basis_row list" where
  "update_remaining cb i v =
     map (\<lambda>r. if cb_id r = i then r\<lparr>remaining_amount := v\<rparr> else r) cb"

text \<open>
  \<^verbatim>\<open>Big.min(remainingSaleAmount, availableAmount)\<close>. The constructor that big.js
  exports has the properties \<^verbatim>\<open>DP\<close>, \<^verbatim>\<open>RM\<close>, \<^verbatim>\<open>NE\<close>, \<^verbatim>\<open>PE\<close>, \<^verbatim>\<open>strict\<close> and
  the rounding modes, and no \<^verbatim>\<open>min\<close> (the static \<^verbatim>\<open>min\<close> and \<^verbatim>\<open>max\<close> belong to
  bignumber.js and decimal.js): \<^verbatim>\<open>Big.min\<close> is \<^verbatim>\<open>undefined\<close>, and calling it throws
  a \<^verbatim>\<open>TypeError\<close>, whatever the arguments.
\<close>

definition Big_min :: "int \<Rightarrow> int \<Rightarrow> error + int" where
  "Big_min a b = Inl TypeError"

text \<open>
  The \<^verbatim>\<open>for (const entry of costBasisEntries)\<close> loop of \<^verbatim>\<open>processSale\<close>, carrying
  \<^verbatim>\<open>remainingSaleAmount\<close>, \<^verbatim>\<open>totalRealizedPnl\<close> and the table. The available amount
  is read from the selected entry, as in the source. The loop ends with the exception
  of a statement of its body (\<open>Inl\<close>), or with the three values it carries.
\<close>

fun fifo_loop ::
  "rat \<Rightarrow> cost_basis_row list \<Rightarrow> int \<Rightarrow> rat \<Rightarrow> cost_basis_row list
     \<Rightarrow> error + int \<times> rat \<times> cost_basis_row list" where
  "fifo_loop salePrice [] remainingSaleAmount totalRealizedPnl cb =
     Inr (remainingSaleAmount, totalRealizedPnl, cb)"
| "fifo_loop salePrice (entry # entries) remainingSaleAmount totalRealizedPnl cb =
     (if remainingSaleAmount \<le> 0 then Inr (remainingSaleAmount, totalRealizedPnl, cb)
      else
        let availableAmount = remaining_amount entry
        in case Big_min remainingSaleAmount availableAmount of
             Inl e \<Rightarrow> Inl e
           | Inr useAmount \<Rightarrow>
               let costBasis = price_per_token entry;
                   realizedPnl = of_int useAmount * (salePrice - costBasis);
                   newRemainingAmount = availableAmount - useAmount
               in fifo_loop salePrice entries (remainingSaleAmount - useAmount)
                    (totalRealizedPnl + realizedPnl)
                    (update_remaining cb (cb_id entry) newRemainingAmount))"

text \<open>
  \<^verbatim>\<open>processSale\<close> when the store answers every statement: the realized P&L it returns
  or the exception it throws, the table afterwards, and what it logs. With no open lot
  it warns, rolls back (nothing was written) and returns 0. An exception in the loop is
  caught: \<^verbatim>\<open>ROLLBACK\<close> undoes the updates of the loop,
  \<^verbatim>\<open>'Error processing FIFO sale:'\<close> is logged and the exception is thrown again.
\<close>

definition processSale ::
  "cost_basis_row list \<Rightarrow> nat \<Rightarrow> int \<Rightarrow> rat
     \<Rightarrow> (error + rat) \<times> cost_basis_row list \<times> log_entry list" where
  "processSale cb holderId saleAmount salePrice =
     (let costBasisEntries = open_lots cb holderId
      in if costBasisEntries = [] then (Inr 0, cb, [Warn_NoCostBasis holderId])
         else
           (case fifo_loop salePrice costBasisEntries saleAmount 0 cb of
              Inl e \<Rightarrow> (Inl e, cb, [Error_ProcessSale])
            | Inr (remainingSaleAmount, totalRealizedPnl, cb') \<Rightarrow>
                (Inr totalRealizedPnl, cb',
                 if 0 < remainingSaleAmount
                 then [Warn_Oversell saleAmount remainingSaleAmount] else [])))"

text \<open>
  \<^verbatim>\<open>getTotalCostBasis\<close>:
  \<^verbatim>\<open>SUM(remaining_amount::DECIMAL * price_per_token) ... WHERE holder_id = $1 AND remaining_amount > 0\<close>,
  read as 0 when the sum is NULL (no row).
\<close>

definition getTotalCostBasis :: "cost_basis_row list \<Rightarrow> nat \<Rightarrow> rat" where
  "getTotalCostBasis cb holderId =
     sum_list (map (\<lambda>e. of_int (remaining_amount e) * price_per_token e)
       (filter (\<lambda>e. holder_id e = holderId \<and> 0 < remaining_amount e) cb))"

text \<open>\<^verbatim>\<open>SUM(remaining_amount::DECIMAL)\<close> over the same rows, 0 when NULL.\<close>

definition total_open_amount :: "cost_basis_row list \<Rightarrow> nat \<Rightarrow> int" where
  "total_open_amount cb holderId =
     sum_list (map remaining_amount
       (filter (\<lambda>e. holder_id e = holderId \<and> 0 < remaining_amount e) cb))"

text \<open>
  A JavaScript division: by zero it gives NaN (0/0) or an infinity, never an exception.
\<close>

datatype js_number = Finite rat | PosInfinity | NegInfinity | NaN

definition js_div :: "rat \<Rightarrow> rat \<Rightarrow> js_number" where
  "js_div a b =
     (if b \<noteq> 0 then Finite (a / b)
      else if a = 0 then NaN
      else if 0 < a then PosInfinity else NegInfinity)"

text \<open>\<^verbatim>\<open>getWeightedAverageCostBasis\<close>\<close>

definition getWeightedAverageCostBasis :: "cost_basis_row list \<Rightarrow> nat \<Rightarrow> js_number" where
  "getWeightedAverageCostBasis cb holderId =
     (let totalCost = getTotalCostBasis cb holderId;
          totalAmount = (of_int (total_open_amount cb holderId) :: rat)
      in if totalAmount = 0 then Finite 0 else js_div totalCost totalAmount)"

text \<open>\<^verbatim>\<open>getUnrealizedPnL\<close>: the triple (unrealizedPnl, totalAmount, averageCostBasis).\<close>

definition getUnrealizedPnL ::
  "cost_basis_row list \<Rightarrow> nat \<Rightarrow> rat \<Rightarrow> js_number \<times> int \<times> js_number" where
  "getUnrealizedPnL cb holderId currentPrice =
     (let totalAmount = total_open_amount cb holderId;
          totalCostBasis = getTotalCostBasis cb holderId
      in if totalAmount = 0 then (Finite 0, 0, Finite 0)
         else
           let averageCostBasis = js_div totalCostBasis (of_int totalAmount);
               currentValue = of_int totalAmount * currentPrice;
               unrealizedPnl = currentValue - totalCostBasis
           in (Finite unrealizedPnl, totalAmount, averageCostBasis))"

text \<open>The sum of \<open>remaining_amount\<close> over all lots of a holder, open or not.\<close>

definition holder_lot_sum :: "cost_basis_row list \<Rightarrow> nat \<Rightarrow> int" where
  "holder_lot_sum cb holderId =
     sum_list (map remaining_amount (filter (\<lambda>e. holder_id e = holderId) cb))"

section \<open>Transaction processor\<close>

text \<open>
  \<^verbatim>\<open>ensureTokenExists\<close>: the id of the first row with the address, or a new row. It
  runs on the client of the enclosing transaction.
\<close>

definition ensureTokenExists :: "database \<Rightarrow> string \<Rightarrow> nat \<times> database" where
  "ensureTokenExists d tokenAddr =
     (case find (\<lambda>r. address r = tokenAddr) (tokens d) of
        Some r \<Rightarrow> (tok_id r, d)
      | None \<Rightarrow>
          (id_seq d,
           d\<lparr>tokens := tokens d @ [\<lparr>tok_id = id_seq d, address = tokenAddr\<rparr>],
             id_seq := Suc (id_seq d)\<rparr>))"

text \<open>The fields of \<^verbatim>\<open>HolderPosition\<close> that \<^verbatim>\<open>updatePositionForTransaction\<close> reads.\<close>

record HolderPosition =
  currentBalance :: int
  totalBought :: int
  totalSold :: int
  realizedPnl :: rat

text \<open>The values of the store's type \<^verbatim>\<open>BIGINT\<close>: 64 bits, signed.\<close>

definition fits_bigint :: "int \<Rightarrow> bool" where
  "fits_bigint n \<longleftrightarrow> - (2 ^ 63) \<le> n \<and> n < 2 ^ 63"

text \<open>
  The UPDATE of the holder row at the end of \<^verbatim>\<open>updatePositionForTransaction\<close>:
  \<^verbatim>\<open>first_buy_timestamp = COALESCE(first_buy_timestamp, CASE WHEN $6 = 'buy' THEN $7 ELSE NULL END)\<close>,
  \<^verbatim>\<open>is_active = $1::BIGINT > 0\<close>, \<^verbatim>\<open>WHERE id = $8\<close>. The first parameter is the new
  balance, written in decimal: the cast to \<^verbatim>\<open>BIGINT\<close> fails when the balance is not a
  64-bit integer, and then the store rejects the statement; otherwise \<open>is_active\<close> is the
  sign test of the new balance. The types of the columns are in the schema, which is
  not among the sources: the only range the model checks is the one of this cast.
\<close>

definition update_holder ::
  "holder_row list \<Rightarrow> nat \<Rightarrow> int \<Rightarrow> int \<Rightarrow> int \<Rightarrow> rat \<Rightarrow> rat \<Rightarrow> transaction_type \<Rightarrow> int
     \<Rightarrow> error + holder_row list" where
  "update_holder hs holderId newBalance newTotalBought newTotalSold newAverageBuyPrice
       newRealizedPnl ty ts =
     (if \<not> fits_bigint newBalance then Inl BigintOutOfRange
      else
        Inr (map (\<lambda>h. if h_id h = holderId
               then h\<lparr>current_balance := newBalance,
                      total_bought := newTotalBought,
                      total_sold := newTotalSold,
                      average_buy_price := newAverageBuyPrice,
                      realized_pnl := newRealizedPnl,
                      first_buy_timestamp :=
                        (case first_buy_timestamp h of
                           Some ts0 \<Rightarrow> Some ts0
                         | None \<Rightarrow> if ty = Buy then Some ts else None),
                      last_transaction_timestamp := Some ts,
                      is_active := (0 < newBalance)\<rparr>
               else h) hs))"

text \<open>
  \<^verbatim>\<open>updatePositionForTransaction\<close>. The holder UPDATE goes through the client of the
  enclosing transaction; \<^verbatim>\<open>addPurchase\<close>, \<^verbatim>\<open>processSale\<close> and
  \<^verbatim>\<open>getTotalCostBasis\<close> each take a connection of their own from the pool
  (\<^verbatim>\<open>this.db.connect()\<close>), so what they write to \<open>cost_basis\<close> is committed when they
  return. A statement that fails inside \<^verbatim>\<open>addPurchase\<close> or \<^verbatim>\<open>processSale\<close> leaves
  \<open>cost_basis\<close> as it was (a single INSERT, or the ROLLBACK of \<^verbatim>\<open>processSale\<close>'s own
  transaction). The schema is not among the sources: the model has no referential
  constraint from \<open>cost_basis\<close> to the rows of the open transaction. The first
  component of the result of the \<^verbatim>\<open>switch\<close> tells whether its ledger call threw:
  an exception of \<^verbatim>\<open>processSale\<close> is not caught here.
\<close>

definition updatePositionForTransaction ::
  "database \<Rightarrow> nat \<Rightarrow> HolderPosition option \<Rightarrow> TokenTransaction \<Rightarrow> nat \<Rightarrow> fault
     \<Rightarrow> outcome \<times> database \<times> log_entry list" where
  "updatePositionForTransaction d holderId currentPosition t transactionId f =
     (let amt = amount t;
          price = pricePerToken t;
          balance0 = (case currentPosition of None \<Rightarrow> 0 | Some p \<Rightarrow> currentBalance p);
          bought0 = (case currentPosition of None \<Rightarrow> 0 | Some p \<Rightarrow> totalBought p);
          sold0 = (case currentPosition of None \<Rightarrow> 0 | Some p \<Rightarrow> totalSold p);
          pnl0 = (case currentPosition of None \<Rightarrow> 0 | Some p \<Rightarrow> realizedPnl p)
      in case
           (case transactionType t of
              Buy \<Rightarrow>
                if f = Some LedgerOp
                then (Threw (StoreError LedgerOp), d, balance0, bought0, sold0, pnl0,
                      [Error_AddPurchase])
                else (Resolved,
                      d\<lparr>cost_basis :=
                          addPurchase (cost_basis d) (id_seq d) holderId transactionId amt price
                            (blockTime t),
                        id_seq := Suc (id_seq d)\<rparr>,
                      balance0 + amt, bought0 + amt, sold0, pnl0, [])
            | Sell \<Rightarrow>
                if f = Some LedgerOp
                then (Threw (StoreError LedgerOp), d, balance0, bought0, sold0, pnl0,
                      [Error_ProcessSale])
                else
                  (case processSale (cost_basis d) holderId amt price of
                     (Inl e, cb', lg) \<Rightarrow>
                       (Threw e, d\<lparr>cost_basis := cb'\<rparr>, balance0, bought0, sold0, pnl0, lg)
                   | (Inr realized, cb', lg) \<Rightarrow>
                       (Resolved, d\<lparr>cost_basis := cb'\<rparr>,
                        balance0 - amt, bought0, sold0 + amt, pnl0 + realized, lg))
            | Transfer \<Rightarrow> (Resolved, d, balance0 + amt, bought0, sold0, pnl0, []))
         of
           (Threw e, d1, _, _, _, _, lg) \<Rightarrow> (Threw e, d1, lg)
         | (Resolved, d1, newBalance, newTotalBought, newTotalSold, newRealizedPnl, lg) \<Rightarrow>
             if 0 < newTotalBought \<and> f = Some TotalCostBasis
             then (Threw (StoreError TotalCostBasis), d1, lg @ [Error_TotalCostBasis])
             else
               let newAverageBuyPrice =
                     (if 0 < newTotalBought
                      then getTotalCostBasis (cost_basis d1) holderId / of_int newTotalBought
                      else 0)
               in if f = Some UpdateHolder then (Threw (StoreError UpdateHolder), d1, lg)
                  else
                    (case update_holder (holders d1) holderId newBalance newTotalBought
                            newTotalSold newAverageBuyPrice newRealizedPnl
                            (transactionType t) (blockTime t) of
                       Inl e \<Rightarrow> (Threw e, d1, lg)
                     | Inr hs \<Rightarrow> (Resolved, d1\<lparr>holders := hs\<rparr>, lg)))"

text \<open>
  The row \<^verbatim>\<open>INSERT INTO holders (token_id, wallet_address, created_at)\<close> creates: the
  other columns take their defaults (zero amounts, NULL timestamps). Every column but
  \<open>first_buy_timestamp\<close> is overwritten by the UPDATE that follows in the same
  transaction.
\<close>

definition new_holder_row :: "nat \<Rightarrow> nat \<Rightarrow> string \<Rightarrow> holder_row" where
  "new_holder_row new_id tokenId wallet =
     \<lparr>h_id = new_id, h_token_id = tokenId, wallet_address = wallet,
      current_balance = 0, total_bought = 0, total_sold = 0,
      average_buy_price = 0, realized_pnl = 0,
      first_buy_timestamp = None, last_transaction_timestamp = None,
      is_active = False\<rparr>"

text \<open>
  The \<^verbatim>\<open>currentPosition\<close> that \<^verbatim>\<open>updateHolderPosition\<close> builds from a row it found.
\<close>

definition position_of_row :: "holder_row \<Rightarrow> HolderPosition" where
  "position_of_row row =
     \<lparr>currentBalance = current_balance row, totalBought = total_bought row,
      totalSold = total_sold row, realizedPnl = realized_pnl row\<rparr>"

text \<open>
  \<^verbatim>\<open>updateHolderPosition\<close>: get or create the holder row of (token, wallet), then update
  it. When the row is created, \<^verbatim>\<open>currentPosition\<close> stays \<^verbatim>\<open>null\<close>.
\<close>

definition updateHolderPosition ::
  "database \<Rightarrow> nat \<Rightarrow> string \<Rightarrow> TokenTransaction \<Rightarrow> nat \<Rightarrow> fault
     \<Rightarrow> outcome \<times> database \<times> log_entry list" where
  "updateHolderPosition d tokenId wallet t transactionId f =
     (if f = Some EnsureHolder then (Threw (StoreError EnsureHolder), d, [])
      else
        case find (\<lambda>h. h_token_id h = tokenId \<and> wallet_address h = wallet) (holders d) of
          None \<Rightarrow>
            updatePositionForTransaction
              (d\<lparr>holders := holders d @ [new_holder_row (id_seq d) tokenId wallet],
                 id_seq := Suc (id_seq d)\<rparr>)
              (id_seq d) None t transactionId f
        | Some row \<Rightarrow>
            updatePositionForTransaction d (h_id row) (Some (position_of_row row))
              t transactionId f)"

text \<open>
  ROLLBACK on the client of \<^verbatim>\<open>processTransaction\<close>: what that client wrote (tokens,
  transactions, holders) is undone; what other connections committed to \<open>cost_basis\<close>
  stays, and so does the sequence.
\<close>

definition rollback :: "database \<Rightarrow> database \<Rightarrow> database" where
  "rollback committed working =
     committed\<lparr>cost_basis := cost_basis working, id_seq := id_seq working\<rparr>"

text \<open>The row \<^verbatim>\<open>INSERT INTO transactions (...) RETURNING id\<close> creates.\<close>

definition transaction_row_of :: "nat \<Rightarrow> nat \<Rightarrow> TokenTransaction \<Rightarrow> transaction_row" where
  "transaction_row_of new_id tokenId t =
     \<lparr>tx_id = new_id, tx_token_id = tokenId, tx_signature = signature t,
      tx_wallet_address = walletAddress t, tx_transaction_type = transactionType t,
      tx_amount = amount t, tx_price_per_token = pricePerToken t,
      tx_total_value = totalValue t, tx_block_time = blockTime t, tx_slot = slot t\<rparr>"

text \<open>
  \<^verbatim>\<open>processTransaction\<close>: the outcome of the promise, the committed store afterwards and
  the log. A signature that is already there ends the call at once (ROLLBACK of an empty
  transaction, no error). The \<^verbatim>\<open>catch\<close> rolls back, logs and rethrows.
\<close>

definition processTransaction ::
  "database \<Rightarrow> TokenTransaction \<Rightarrow> fault \<Rightarrow> outcome \<times> database \<times> log_entry list" where
  "processTransaction d t f =
     (if f = Some ExistsCheck
      then (Threw (StoreError ExistsCheck), d, [Error_Transaction (signature t)])
      else if signature t \<in> set (map tx_signature (transactions d))
      then (Resolved, d, [])
      else if f = Some EnsureToken
      then (Threw (StoreError EnsureToken), d, [Error_Transaction (signature t)])
      else
        case ensureTokenExists d (tokenAddress t) of
          (tokenId, d1) \<Rightarrow>
            if f = Some InsertTransaction
            then (Threw (StoreError InsertTransaction), rollback d d1,
                  [Error_Transaction (signature t)])
            else
              let transactionId = id_seq d1;
                  d2 = d1\<lparr>transactions :=
                            transactions d1 @ [transaction_row_of transactionId tokenId t],
                          id_seq := Suc (id_seq d1)\<rparr>
              in case updateHolderPosition d2 tokenId (walletAddress t) t transactionId f of
                   (Threw e, d3, lg) \<Rightarrow>
                     (Threw e, rollback d d3, lg @ [Error_Transaction (signature t)])
                 | (Resolved, d3, lg) \<Rightarrow>
                     if f = Some Commit
                     then (Threw (StoreError Commit), rollback d d3,
                           lg @ [Error_Transaction (signature t)])
                     else (Resolved, d3, lg))"

text \<open>
  The store after a transaction was handed to \<^verbatim>\<open>processTransaction\<close> with no failure
  of the store, whether the promise resolved or rejected; and the store after the
  transactions of a list were delivered one after the other, each on its own (an
  arrival at an idle processor).
\<close>

definition apply_transaction :: "database \<Rightarrow> TokenTransaction \<Rightarrow> database" where
  "apply_transaction d t = fst (snd (processTransaction d t None))"

definition ingest :: "database \<Rightarrow> TokenTransaction list \<Rightarrow> database" where
  "ingest d ts = foldl apply_transaction d ts"

subsection \<open>The queue\<close>

record processor =
  store :: database
  processingQueue :: "TokenTransaction list"
  isProcessing :: bool
  logged :: "log_entry list"

definition next_fault :: "fault list \<Rightarrow> fault" where
  "next_fault fs = (case fs of [] \<Rightarrow> None | f # _ \<Rightarrow> f)"

text \<open>
  The \<^verbatim>\<open>while (this.processingQueue.length > 0)\<close> loop of \<^verbatim>\<open>processQueue\<close>, inside
  its \<^verbatim>\<open>try\<close>: each turn shifts the head off the queue and awaits
  \<^verbatim>\<open>processTransaction\<close>; a rejection leaves the loop. The i-th item applied meets the
  i-th fault of the list. Transactions that arrive while the loop runs are not part of
  this model: the loop drains the queue it is given.
\<close>

fun drain ::
  "fault list \<Rightarrow> database \<Rightarrow> TokenTransaction list
     \<Rightarrow> outcome \<times> database \<times> TokenTransaction list \<times> log_entry list" where
  "drain fs d [] = (Resolved, d, [], [])"
| "drain fs d (t # q) =
     (case processTransaction d t (next_fault fs) of
        (Threw e, d', lg) \<Rightarrow> (Threw e, d', q, lg)
      | (Resolved, d', lg) \<Rightarrow>
          (case drain (tl fs) d' q of
             (r, d'', q', lg') \<Rightarrow> (r, d'', q', lg @ lg')))"

text \<open>
  \<^verbatim>\<open>processQueue\<close>: the guard, the loop, the \<^verbatim>\<open>catch\<close> around the whole loop that
  logs, and the \<^verbatim>\<open>finally\<close> that clears the flag.
\<close>

definition processQueue :: "fault list \<Rightarrow> processor \<Rightarrow> processor" where
  "processQueue fs p =
     (if isProcessing p \<or> processingQueue p = [] then p
      else
        case drain fs (store p) (processingQueue p) of
          (r, d', q', lg) \<Rightarrow>
            p\<lparr>store := d', processingQueue := q', isProcessing := False,
              logged := logged p @ lg @
                (case r of Threw e \<Rightarrow> [Error_Queue] | Resolved \<Rightarrow> [])\<rparr>)"

text \<open>\<^verbatim>\<open>handleTransaction\<close>: enqueue, and drain unless a drain is running.\<close>

definition handleTransaction :: "fault list \<Rightarrow> processor \<Rightarrow> TokenTransaction \<Rightarrow> processor" where
  "handleTransaction fs p t =
     (let p1 = p\<lparr>processingQueue := processingQueue p @ [t]\<rparr>
      in if \<not> isProcessing p1 then processQueue fs p1 else p1)"

section \<open>Analytics\<close>

subsection \<open>JavaScript numbers\<close>











subsection \<open>Profit and loss zones\<close>







subsection \<open>Price levels\<close>

text \<open>
  The lots the second query of \<^verbatim>\<open>getHolderPriceLevels\<close> groups:
  \<^verbatim>\<open>cost_basis cb JOIN holders h ON cb.holder_id = h.id WHERE h.token_id = $1 AND cb.remaining_amount > 0\<close>
  (holder ids are a key of \<open>holders\<close>, so the join yields a lot at most once).
\<close>

definition token_lots :: "database \<Rightarrow> nat \<Rightarrow> cost_basis_row list" where
  "token_lots d tokenId =
     filter (\<lambda>e. 0 < remaining_amount e \<and>
                 (\<exists>h\<in>set (holders d). h_id h = holder_id e \<and> h_token_id h = tokenId))
       (cost_basis d)"

record price_row =
  pr_price :: rat
  pr_total_amount :: rat
  pr_holder_count :: nat

text \<open>
  \<^verbatim>\<open>GROUP BY cb.price_per_token ORDER BY cb.price_per_token ASC\<close> with
  \<^verbatim>\<open>SUM(cb.remaining_amount)\<close> and \<^verbatim>\<open>COUNT(DISTINCT cb.holder_id)\<close>.
\<close>

definition price_rows :: "database \<Rightarrow> nat \<Rightarrow> price_row list" where
  "price_rows d tokenId =
     map (\<lambda>p. \<lparr>pr_price = p,
               pr_total_amount =
                 of_int (sum_list (map remaining_amount
                   (filter (\<lambda>e. price_per_token e = p) (token_lots d tokenId)))),
               pr_holder_count =
                 length (remdups (map holder_id
                   (filter (\<lambda>e. price_per_token e = p) (token_lots d tokenId))))\<rparr>)
       (sort (remdups (map price_per_token (token_lots d tokenId))))"

record price_group =
  g_priceLevel :: rat
  g_totalAmount :: rat
  g_holderCount :: nat

text \<open>
  \<^verbatim>\<open>groupedData\<close> is a \<^verbatim>\<open>Map\<close>, iterated in insertion order: an association list.
  The inner loop looks for the first key within the band;
  \<^verbatim>\<open>Math.abs(price - existingPrice) / existingPrice * 100\<close> is an infinity or NaN when
  the key is 0, and then the comparison is false.
\<close>

definition within_band :: "rat \<Rightarrow> rat \<Rightarrow> rat \<Rightarrow> bool" where
  "within_band priceRangePercent price existingPrice \<longleftrightarrow>
     existingPrice \<noteq> 0 \<and> \<bar>price - existingPrice\<bar> / existingPrice * 100 \<le> priceRangePercent"

definition find_group_key :: "rat \<Rightarrow> rat \<Rightarrow> (rat \<times> price_group) list \<Rightarrow> rat" where
  "find_group_key priceRangePercent price groupedData =
     (case find (within_band priceRangePercent price) (map fst groupedData) of
        Some existingPrice \<Rightarrow> existingPrice
      | None \<Rightarrow> price)"

definition group_step ::
  "rat \<Rightarrow> (rat \<times> price_group) list \<Rightarrow> price_row \<Rightarrow> (rat \<times> price_group) list" where
  "group_step priceRangePercent groupedData row =
     (let price = pr_price row;
          amt = pr_total_amount row;
          count = pr_holder_count row;
          groupKey = find_group_key priceRangePercent price groupedData
      in if groupKey \<in> set (map fst groupedData)
         then map (\<lambda>(k, g). if k = groupKey
                             then (k, g\<lparr>g_totalAmount := g_totalAmount g + amt,
                                       g_holderCount := g_holderCount g + count\<rparr>)
                             else (k, g)) groupedData
         else groupedData @
                [(groupKey, \<lparr>g_priceLevel = price, g_totalAmount = amt,
                              g_holderCount = count\<rparr>)])"

record price_level =
  priceLevel :: rat
  holderCount :: nat
  totalAmount :: rat
  percentageOfSupply :: rat

text \<open>
  \<^verbatim>\<open>getHolderPriceLevels\<close>. \<^verbatim>\<open>Array.prototype.sort\<close> is stable; with the comparator
  \<^verbatim>\<open>b.totalAmount - a.totalAmount\<close> it is a stable sort on the negated amount.
\<close>

definition circulating_supply :: "database \<Rightarrow> nat \<Rightarrow> rat" where
  "circulating_supply d tokenId =
     of_int (sum_list (map current_balance
       (filter (\<lambda>h. h_token_id h = tokenId \<and> is_active h) (holders d))))"

definition getHolderPriceLevels :: "database \<Rightarrow> nat \<Rightarrow> rat \<Rightarrow> price_level list" where
  "getHolderPriceLevels d tokenId priceRangePercent =
     (let circulatingSupply = circulating_supply d tokenId;
          groupedData = foldl (group_step priceRangePercent) [] (price_rows d tokenId);
          priceLevels =
            map (\<lambda>(k, g). \<lparr>priceLevel = k, holderCount = g_holderCount g,
                            totalAmount = g_totalAmount g,
                            percentageOfSupply =
                              (if 0 < circulatingSupply
                               then g_totalAmount g / circulatingSupply * 100 else 0)\<rparr>)
              groupedData
      in sort_key (\<lambda>l. - totalAmount l) priceLevels)"

section \<open>Notions used to state the properties\<close>

subsection \<open>Profit and loss zones\<close>





subsection \<open>Example data\<close>

text \<open>
  Lot A (100 bought at 1) and lot B (100 bought at 2, later) of holder 7; and the three
  events of the same story: two buys and a sale of 150 at 3.
\<close>

definition lotA :: cost_basis_row where
  "lotA = \<lparr>cb_id = 0, holder_id = 7, transaction_id = 10, remaining_amount = 100,
            original_amount = 100, price_per_token = 1, purchase_timestamp = 1000\<rparr>"

definition lotB :: cost_basis_row where
  "lotB = \<lparr>cb_id = 1, holder_id = 7, transaction_id = 11, remaining_amount = 100,
            original_amount = 100, price_per_token = 2, purchase_timestamp = 2000\<rparr>"

definition tx_buy_A :: TokenTransaction where
  "tx_buy_A = \<lparr>signature = ''sigA'', tokenAddress = ''MONKE'', walletAddress = ''alice'',
     transactionType = Buy, amount = 100, pricePerToken = 1, totalValue = 100,
     blockTime = 1000, slot = 1\<rparr>"

definition tx_buy_B :: TokenTransaction where
  "tx_buy_B = \<lparr>signature = ''sigB'', tokenAddress = ''MONKE'', walletAddress = ''alice'',
     transactionType = Buy, amount = 100, pricePerToken = 2, totalValue = 200,
     blockTime = 2000, slot = 2\<rparr>"

definition tx_sell_C :: TokenTransaction where
  "tx_sell_C = \<lparr>signature = ''sigC'', tokenAddress = ''MONKE'', walletAddress = ''alice'',
     transactionType = Sell, amount = 150, pricePerToken = 3, totalValue = 450,
     blockTime = 3000, slot = 3\<rparr>"

text \<open>
  A sale of 250 by the same holder, more than it ever bought; an outgoing transfer of
  250; and a sale by a wallet that never bought.
\<close>

definition tx_sell_D :: TokenTransaction where
  "tx_sell_D = \<lparr>signature = ''sigD'', tokenAddress = ''MONKE'', walletAddress = ''alice'',
     transactionType = Sell, amount = 250, pricePerToken = 3, totalValue = 750,
     blockTime = 4000, slot = 4\<rparr>"

definition tx_transfer_out :: TokenTransaction where
  "tx_transfer_out = \<lparr>signature = ''sigE'', tokenAddress = ''MONKE'', walletAddress = ''alice'',
     transactionType = Transfer, amount = - 250, pricePerToken = 0, totalValue = 0,
     blockTime = 5000, slot = 5\<rparr>"

definition tx_sell_new :: TokenTransaction where
  "tx_sell_new = \<lparr>signature = ''sigF'', tokenAddress = ''MONKE'', walletAddress = ''bob'',
     transactionType = Sell, amount = 10, pricePerToken = 5, totalValue = 50,
     blockTime = 6000, slot = 6\<rparr>"

text \<open>
  Two buys of \<open>2^62\<close> units each by one wallet: each amount is a 64-bit integer, their
  sum \<open>2^63\<close> is not.
\<close>

definition tx_buy_G :: TokenTransaction where
  "tx_buy_G = \<lparr>signature = ''sigG'', tokenAddress = ''MONKE'', walletAddress = ''carol'',
     transactionType = Buy, amount = 4611686018427387904, pricePerToken = 1,
     totalValue = 4611686018427387904, blockTime = 7000, slot = 7\<rparr>"

definition tx_buy_H :: TokenTransaction where
  "tx_buy_H = \<lparr>signature = ''sigH'', tokenAddress = ''MONKE'', walletAddress = ''carol'',
     transactionType = Buy, amount = 4611686018427387904, pricePerToken = 2,
     totalValue = 9223372036854775808, blockTime = 8000, slot = 8\<rparr>"

text \<open>A processor whose queue holds the three events.\<close>

definition stalled_processor :: processor where
  "stalled_processor =
     \<lparr>store = empty_database, processingQueue = [tx_buy_A, tx_buy_B, tx_sell_C],
      isProcessing = False, logged = []\<rparr>"



text \<open>One holder with two lots, bought at 100 and at 101.\<close>

definition bucket_store :: database where
  "bucket_store =
     \<lparr>tokens = [\<lparr>tok_id = 0, address = ''MONKE''\<rparr>],
      transactions = [],
      holders =
        [\<lparr>h_id = 1, h_token_id = 0, wallet_address = ''alice'',
          current_balance = 20, total_bought = 20, total_sold = 0,
          average_buy_price = 201 / 2, realized_pnl = 0, first_buy_timestamp = Some 1000,
          last_transaction_timestamp = Some 2000, is_active = True\<rparr>],
      cost_basis =
        [\<lparr>cb_id = 2, holder_id = 1, transaction_id = 10, remaining_amount = 10,
          original_amount = 10, price_per_token = 100, purchase_timestamp = 1000\<rparr>,
         \<lparr>cb_id = 3, holder_id = 1, transaction_id = 11, remaining_amount = 10,
          original_amount = 10, price_per_token = 101, purchase_timestamp = 2000\<rparr>],
      id_seq = 12\<rparr>"

text \<open>
  The second buy of the story, applied after the first, with the store rejecting the
  UPDATE of the holder row.
\<close>

definition failed_buy :: "outcome \<times> database \<times> log_entry list" where
  "failed_buy =
     processTransaction (ingest empty_database [tx_buy_A]) tx_buy_B (Some UpdateHolder)"

text \<open>
  The store after the two buys of the story; and the store after the first of the two
  large buys.
\<close>

definition two_buys_store :: database where
  "two_buys_store = ingest empty_database [tx_buy_A, tx_buy_B]"

definition large_buy_store :: database where
  "large_buy_store = ingest empty_database [tx_buy_G]"

section \<open>Properties of the ledger\<close>

subsection \<open>Sales\<close>

text \<open>
  What \<^verbatim>\<open>processSale\<close> does, by cases. With no open lot it warns and returns 0. With
  an open lot and a sale amount that is not positive, the loop breaks at its first
  turn and 0 is returned. With an open lot and a positive sale amount, the first turn
  of the loop calls \<^verbatim>\<open>Big.min\<close>: the call throws, the exception is logged and thrown
  again. In no case is a lot changed.
\<close>

lemma fifo_loop_throws:
  "entries \<noteq> [] \<Longrightarrow> 0 < remainingSaleAmount
   \<Longrightarrow> fifo_loop salePrice entries remainingSaleAmount pnl cb = Inl TypeError"
  by (cases entries) (simp_all add: Big_min_def)

lemma fifo_loop_breaks:
  "remainingSaleAmount \<le> 0
   \<Longrightarrow> fifo_loop salePrice entries remainingSaleAmount pnl cb
         = Inr (remainingSaleAmount, pnl, cb)"
  by (cases entries) simp_all

lemma processSale_no_lot:
  "open_lots cb holderId = []
   \<Longrightarrow> processSale cb holderId saleAmount salePrice = (Inr 0, cb, [Warn_NoCostBasis holderId])"
  by (simp add: processSale_def)

lemma processSale_nothing_to_sell:
  "open_lots cb holderId \<noteq> [] \<Longrightarrow> saleAmount \<le> 0
   \<Longrightarrow> processSale cb holderId saleAmount salePrice = (Inr 0, cb, [])"
  by (simp add: processSale_def fifo_loop_breaks)

lemma processSale_throws:
  "open_lots cb holderId \<noteq> [] \<Longrightarrow> 0 < saleAmount
   \<Longrightarrow> processSale cb holderId saleAmount salePrice = (Inl TypeError, cb, [Error_ProcessSale])"
  by (simp add: processSale_def fifo_loop_throws)

lemma processSale_keeps_lots:
  "fst (snd (processSale cb holderId saleAmount salePrice)) = cb"
proof (cases "open_lots cb holderId = []")
  case True
  then show ?thesis by (simp add: processSale_no_lot)
next
  case False
  then show ?thesis
    by (cases "0 < saleAmount")
       (simp_all add: processSale_throws processSale_nothing_to_sell)
qed

lemma processSale_realizes_nothing:
  "fst (processSale cb holderId saleAmount salePrice) = Inr pnl \<Longrightarrow> pnl = 0"
proof (cases "open_lots cb holderId = []")
  case True
  then show "fst (processSale cb holderId saleAmount salePrice) = Inr pnl \<Longrightarrow> pnl = 0"
    by (simp add: processSale_no_lot)
next
  case False
  then show "fst (processSale cb holderId saleAmount salePrice) = Inr pnl \<Longrightarrow> pnl = 0"
    by (cases "0 < saleAmount")
       (simp_all add: processSale_throws processSale_nothing_to_sell)
qed

text \<open>
  C1. The holder has lot A (100 bought at 1) and lot B (100 bought at 2); it sells 150
  at 3. The query selects the two lots, oldest first. The first turn of the loop calls
  \<^verbatim>\<open>Big.min\<close>, which is no function of big.js: \<^verbatim>\<open>processSale\<close> throws a
  \<^verbatim>\<open>TypeError\<close> and logs it. No realized P&L is returned and both lots keep their 100.
\<close>

theorem sale_of_the_scenario_throws:
  "open_lots [lotA, lotB] 7 = [lotA, lotB]
   \<and> processSale [lotA, lotB] 7 150 3 = (Inl TypeError, [lotA, lotB], [Error_ProcessSale])
   \<and> map remaining_amount (fst (snd (processSale [lotA, lotB] 7 150 3))) = [100, 100]"
  by (simp add: processSale_def Big_min_def open_lots_def lotA_def lotB_def)

text \<open>
  C5. The same holder sells 250 at 3, more than the 200 of its open lots. The sale
  meets an open lot, so \<^verbatim>\<open>processSale\<close> throws the \<^verbatim>\<open>TypeError\<close> of \<^verbatim>\<open>Big.min\<close>: no
  lot is drained, no realized P&L is returned and no shortfall is logged as a warning.
\<close>

theorem oversell_throws:
  "total_open_amount [lotA, lotB] 7 = 200
   \<and> processSale [lotA, lotB] 7 250 3 = (Inl TypeError, [lotA, lotB], [Error_ProcessSale])
   \<and> map remaining_amount (fst (snd (processSale [lotA, lotB] 7 250 3))) = [100, 100]"
  by (simp add: processSale_def Big_min_def open_lots_def total_open_amount_def
        lotA_def lotB_def)

subsection \<open>Division safety\<close>

lemma cost_basis_queries_finite:
  "\<exists>r. getWeightedAverageCostBasis cb h = Finite r"
  "\<exists>u a. getUnrealizedPnL cb h p = (Finite u, total_open_amount cb h, Finite a)"
  by (simp_all add: getWeightedAverageCostBasis_def getUnrealizedPnL_def js_div_def Let_def)

text \<open>
  C7. For a holder whose open lot amount is 0, \<^verbatim>\<open>getWeightedAverageCostBasis\<close> returns
  0 and \<^verbatim>\<open>getUnrealizedPnL\<close> returns the zero result (0, 0, 0): both are finite
  numbers, no division by zero takes place.
\<close>

theorem zero_open_amount_safe:
  assumes "total_open_amount cb holderId = 0"
  shows "getWeightedAverageCostBasis cb holderId = Finite 0
       \<and> getUnrealizedPnL cb holderId currentPrice = (Finite 0, 0, Finite 0)"
  using assms by (simp add: getWeightedAverageCostBasis_def getUnrealizedPnL_def)

theorem zero_open_amount_safe_witness:
  "total_open_amount [lotA\<lparr>remaining_amount := 0\<rparr>, lotB\<lparr>holder_id := 8\<rparr>] 7 = 0
   \<and> getWeightedAverageCostBasis [lotA\<lparr>remaining_amount := 0\<rparr>, lotB\<lparr>holder_id := 8\<rparr>] 7
       = Finite 0
   \<and> getUnrealizedPnL [lotA\<lparr>remaining_amount := 0\<rparr>, lotB\<lparr>holder_id := 8\<rparr>] 7 5
       = (Finite 0, 0, Finite 0)"
proof -
  have h: "total_open_amount [lotA\<lparr>remaining_amount := 0\<rparr>, lotB\<lparr>holder_id := 8\<rparr>] 7 = 0"
    by (simp add: total_open_amount_def lotA_def lotB_def)
  from zero_open_amount_safe [OF h, of 5] h show ?thesis by simp
qed

section \<open>Properties of the transaction processor\<close>

subsection \<open>Evaluating the model on the example data\<close>

lemmas run_defs = processTransaction_def ensureTokenExists_def updateHolderPosition_def
  updatePositionForTransaction_def update_holder_def fits_bigint_def new_holder_row_def
  position_of_row_def transaction_row_of_def rollback_def addPurchase_def processSale_def
  Big_min_def open_lots_def update_remaining_def getTotalCostBasis_def empty_database_def
  apply_transaction_def ingest_def Let_def tx_buy_A_def tx_buy_B_def tx_sell_C_def
  tx_sell_D_def tx_transfer_out_def tx_sell_new_def tx_buy_G_def tx_buy_H_def

lemma two_buys:
  "two_buys_store =
     \<lparr>tokens = [\<lparr>tok_id = 0, address = ''MONKE''\<rparr>],
      transactions = [transaction_row_of 1 0 tx_buy_A, transaction_row_of 4 0 tx_buy_B],
      holders =
        [\<lparr>h_id = 2, h_token_id = 0, wallet_address = ''alice'',
          current_balance = 200, total_bought = 200, total_sold = 0,
          average_buy_price = 3 / 2, realized_pnl = 0,
          first_buy_timestamp = Some 1000,
          last_transaction_timestamp = Some 2000, is_active = True\<rparr>],
      cost_basis =
        [\<lparr>cb_id = 3, holder_id = 2, transaction_id = 1, remaining_amount = 100,
          original_amount = 100, price_per_token = 1, purchase_timestamp = 1000\<rparr>,
         \<lparr>cb_id = 5, holder_id = 2, transaction_id = 4, remaining_amount = 100,
          original_amount = 100, price_per_token = 2, purchase_timestamp = 2000\<rparr>],
      id_seq = 6\<rparr>"
  by (simp add: two_buys_store_def run_defs)

lemma large_buy:
  "large_buy_store =
     \<lparr>tokens = [\<lparr>tok_id = 0, address = ''MONKE''\<rparr>],
      transactions = [transaction_row_of 1 0 tx_buy_G],
      holders =
        [\<lparr>h_id = 2, h_token_id = 0, wallet_address = ''carol'',
          current_balance = 4611686018427387904, total_bought = 4611686018427387904,
          total_sold = 0, average_buy_price = 1, realized_pnl = 0,
          first_buy_timestamp = Some 7000,
          last_transaction_timestamp = Some 7000, is_active = True\<rparr>],
      cost_basis =
        [\<lparr>cb_id = 3, holder_id = 2, transaction_id = 1,
          remaining_amount = 4611686018427387904, original_amount = 4611686018427387904,
          price_per_token = 1, purchase_timestamp = 7000\<rparr>],
      id_seq = 4\<rparr>"
  by (simp add: large_buy_store_def run_defs)

subsection \<open>The position update\<close>

text \<open>
  \<^verbatim>\<open>updatePositionForTransaction\<close> with no failure of the store. A sale of a positive
  amount by a holder with an open lot is rejected with the \<^verbatim>\<open>TypeError\<close> of
  \<^verbatim>\<open>processSale\<close>, before the UPDATE of the holder row. A transfer, and a sale by a
  holder with no open lot, reach the UPDATE with the amount added to or subtracted
  from the balance, whatever the balance; the UPDATE is rejected when the new balance
  is no 64-bit integer.
\<close>

lemma upft_sale_meets_lot:
  assumes "transactionType t = Sell" and "0 < amount t"
    and "open_lots (cost_basis d) holderId \<noteq> []"
  shows "updatePositionForTransaction d holderId cp t txid None
           = (Threw TypeError, d, [Error_ProcessSale])"
  using assms
  by (simp add: updatePositionForTransaction_def Let_def processSale_throws)

lemma upft_sale_without_lot:
  assumes "transactionType t = Sell" and "open_lots (cost_basis d) holderId = []"
    and "cp = Some p" and "fits_bigint (currentBalance p - amount t)"
  shows "updatePositionForTransaction d holderId cp t txid None =
           (Resolved,
            d\<lparr>holders :=
                map (\<lambda>h. if h_id h = holderId
                          then h\<lparr>current_balance := currentBalance p - amount t,
                                 total_bought := totalBought p,
                                 total_sold := totalSold p + amount t,
                                 average_buy_price :=
                                   (if 0 < totalBought p
                                    then getTotalCostBasis (cost_basis d) holderId
                                           / of_int (totalBought p)
                                    else 0),
                                 realized_pnl := realizedPnl p,
                                 first_buy_timestamp := first_buy_timestamp h,
                                 last_transaction_timestamp := Some (blockTime t),
                                 is_active := (0 < currentBalance p - amount t)\<rparr>
                          else h) (holders d)\<rparr>,
            [Warn_NoCostBasis holderId])"
proof -
  have fb: "(case first_buy_timestamp h of None \<Rightarrow> None | Some ts0 \<Rightarrow> Some ts0)
              = first_buy_timestamp h" for h :: holder_row
    by (cases "first_buy_timestamp h") simp_all
  from assms show ?thesis
    by (simp add: updatePositionForTransaction_def Let_def processSale_no_lot
          update_holder_def fb cong: if_cong)
qed

lemma upft_transfer:
  assumes "transactionType t = Transfer"
    and "cp = Some p" and "fits_bigint (currentBalance p + amount t)"
  shows "updatePositionForTransaction d holderId cp t txid None =
           (Resolved,
            d\<lparr>holders :=
                map (\<lambda>h. if h_id h = holderId
                          then h\<lparr>current_balance := currentBalance p + amount t,
                                 total_bought := totalBought p,
                                 total_sold := totalSold p,
                                 average_buy_price :=
                                   (if 0 < totalBought p
                                    then getTotalCostBasis (cost_basis d) holderId
                                           / of_int (totalBought p)
                                    else 0),
                                 realized_pnl := realizedPnl p,
                                 first_buy_timestamp := first_buy_timestamp h,
                                 last_transaction_timestamp := Some (blockTime t),
                                 is_active := (0 < currentBalance p + amount t)\<rparr>
                          else h) (holders d)\<rparr>,
            [])"
proof -
  have fb: "(case first_buy_timestamp h of None \<Rightarrow> None | Some ts0 \<Rightarrow> Some ts0)
              = first_buy_timestamp h" for h :: holder_row
    by (cases "first_buy_timestamp h") simp_all
  from assms show ?thesis
    by (simp add: updatePositionForTransaction_def Let_def update_holder_def fb
          cong: if_cong)
qed

lemma upft_out_of_range:
  assumes "transactionType t = Buy" and "cp = Some p"
    and "\<not> fits_bigint (currentBalance p + amount t)"
  shows "updatePositionForTransaction d holderId cp t txid None =
           (Threw BigintOutOfRange,
            d\<lparr>cost_basis :=
                addPurchase (cost_basis d) (id_seq d) holderId txid (amount t)
                  (pricePerToken t) (blockTime t),
              id_seq := Suc (id_seq d)\<rparr>,
            [])"
  using assms
  by (simp add: updatePositionForTransaction_def Let_def update_holder_def)

subsection \<open>The balance is not checked\<close>

text \<open>
  An outgoing transfer of 250 from the balance of 200, and a sale of 10 by a wallet
  that holds nothing: both are applied, the balance becomes negative and the holder is
  marked inactive; the sale is recorded, realizes nothing and is warned about.
\<close>

lemma transfer_below_zero:
  "fst (processTransaction two_buys_store tx_transfer_out None) = Resolved
   \<and> snd (snd (processTransaction two_buys_store tx_transfer_out None)) = []
   \<and> map (\<lambda>h. (wallet_address h, current_balance h, is_active h))
         (holders (apply_transaction two_buys_store tx_transfer_out))
       = [(''alice'', - 50, False)]
   \<and> cost_basis (apply_transaction two_buys_store tx_transfer_out)
       = cost_basis two_buys_store"
  unfolding two_buys by (simp add: run_defs)

lemma sale_without_lots:
  "fst (processTransaction two_buys_store tx_sell_new None) = Resolved
   \<and> snd (snd (processTransaction two_buys_store tx_sell_new None)) = [Warn_NoCostBasis 7]
   \<and> map tx_signature (transactions (apply_transaction two_buys_store tx_sell_new))
       = [''sigA'', ''sigB'', ''sigF'']
   \<and> map (\<lambda>h. (wallet_address h, current_balance h, total_sold h, realized_pnl h, is_active h))
         (holders (apply_transaction two_buys_store tx_sell_new))
       = [(''alice'', 200, 0, 0, True), (''bob'', - 10, 10, 0, False)]
   \<and> cost_basis (apply_transaction two_buys_store tx_sell_new)
       = cost_basis two_buys_store"
  unfolding two_buys by (simp add: run_defs)

text \<open>
  C10. The holder has a balance of 200 and two open lots; it sells 250. The balance is
  not compared with the amount, but the sale is not applied either: \<^verbatim>\<open>processSale\<close>
  meets an open lot and throws the \<^verbatim>\<open>TypeError\<close> of \<^verbatim>\<open>Big.min\<close>,
  \<^verbatim>\<open>processTransaction\<close> rolls back, logs and rejects. The balance stays 200 and the
  holder stays active; the sale is not recorded.
\<close>

theorem sale_meeting_a_lot_is_rejected:
  "map (\<lambda>h. (wallet_address h, current_balance h, is_active h)) (holders two_buys_store)
     = [(''alice'', 200, True)]
   \<and> fst (processTransaction two_buys_store tx_sell_D None) = Threw TypeError
   \<and> snd (snd (processTransaction two_buys_store tx_sell_D None))
       = [Error_ProcessSale, Error_Transaction ''sigD'']
   \<and> map (\<lambda>h. (wallet_address h, current_balance h, is_active h))
         (holders (apply_transaction two_buys_store tx_sell_D))
       = [(''alice'', 200, True)]
   \<and> map tx_signature (transactions (apply_transaction two_buys_store tx_sell_D))
       = [''sigA'', ''sigB'']
   \<and> map remaining_amount (cost_basis (apply_transaction two_buys_store tx_sell_D))
       = [100, 100]"
  unfolding two_buys by (simp add: run_defs)

subsection \<open>Idempotence\<close>

lemma ensureToken_keeps:
  "transactions (snd (ensureTokenExists d a)) = transactions d"
  "holders (snd (ensureTokenExists d a)) = holders d"
  "cost_basis (snd (ensureTokenExists d a)) = cost_basis d"
  by (simp_all add: ensureTokenExists_def split: option.splits)

text \<open>
  A transaction whose signature is committed is a silent no-op: the promise resolves,
  the store is as before and nothing is logged. A transaction whose promise resolves
  has its signature committed, so delivering it again changes nothing.
\<close>

lemma pt_duplicate:
  "signature t \<in> set (map tx_signature (transactions d))
   \<Longrightarrow> processTransaction d t None = (Resolved, d, [])"
  by (simp add: processTransaction_def)

lemma upft_keeps_transactions:
  "transactions (fst (snd (updatePositionForTransaction d hid cp t txid f))) = transactions d"
  by (cases "transactionType t")
     (auto simp: updatePositionForTransaction_def Let_def
        split: prod.splits sum.splits outcome.splits)

lemma uhp_keeps_transactions:
  "transactions (fst (snd (updateHolderPosition d tid w t txid f))) = transactions d"
  by (simp add: updateHolderPosition_def upft_keeps_transactions split: option.splits)

lemma resolved_commits_signature:
  assumes "processTransaction d t f = (Resolved, d', lg)"
  shows "signature t \<in> set (map tx_signature (transactions d'))"
proof (cases "signature t \<in> set (map tx_signature (transactions d))")
  case True
  with assms show ?thesis
    by (auto simp: processTransaction_def split: if_splits)
next
  case False
  obtain tokenId d1 where e1: "ensureTokenExists d (tokenAddress t) = (tokenId, d1)"
    by (cases "ensureTokenExists d (tokenAddress t)")
  let ?d2 = "d1\<lparr>transactions := transactions d1 @ [transaction_row_of (id_seq d1) tokenId t],
               id_seq := Suc (id_seq d1)\<rparr>"
  obtain r d3 lg3 where u:
    "updateHolderPosition ?d2 tokenId (walletAddress t) t (id_seq d1) f = (r, d3, lg3)"
    by (cases "updateHolderPosition ?d2 tokenId (walletAddress t) t (id_seq d1) f")
  have "transactions d3 = transactions ?d2"
    using uhp_keeps_transactions [of ?d2 tokenId "walletAddress t" t "id_seq d1" f] u
    by simp
  then have in3: "signature t \<in> set (map tx_signature (transactions d3))"
    by (simp add: transaction_row_of_def)
  from assms False e1 u have "d' = d3"
    by (auto simp: processTransaction_def Let_def split: if_splits outcome.splits)
  with in3 show ?thesis by simp
qed

lemma resolved_then_noop:
  assumes "processTransaction d t f = (Resolved, d', lg)"
  shows "processTransaction d' t None = (Resolved, d', [])"
  using resolved_commits_signature [OF assms] by (rule pt_duplicate)

text \<open>
  C4. The wallet has bought \<open>2^62\<close> units (event G); the buy event H of another \<open>2^62\<close>
  units arrives. \<^verbatim>\<open>addPurchase\<close> inserts the lot of H through its own connection; the
  new balance \<open>2^63\<close> is no 64-bit integer, so the store rejects the UPDATE of the
  holder row at \<^verbatim>\<open>$1::BIGINT\<close>, and \<^verbatim>\<open>processTransaction\<close> rolls back and rejects. The
  signature of H is not committed and the lot of H is. Delivered again, H is not
  recognised and adds its lot once more: after one delivery the wallet has two lots,
  after two deliveries three.
\<close>

theorem second_delivery_adds_a_lot:
  "fits_bigint (amount tx_buy_G) \<and> fits_bigint (amount tx_buy_H)
   \<and> fst (processTransaction large_buy_store tx_buy_H None) = Threw BigintOutOfRange
   \<and> map tx_signature (transactions (ingest large_buy_store [tx_buy_H])) = [''sigG'']
   \<and> map remaining_amount (cost_basis (ingest large_buy_store [tx_buy_H]))
       = [4611686018427387904, 4611686018427387904]
   \<and> fst (processTransaction (ingest large_buy_store [tx_buy_H]) tx_buy_H None)
       = Threw BigintOutOfRange
   \<and> map remaining_amount (cost_basis (ingest large_buy_store [tx_buy_H, tx_buy_H]))
       = [4611686018427387904, 4611686018427387904, 4611686018427387904]
   \<and> holders (ingest large_buy_store [tx_buy_H, tx_buy_H]) = holders large_buy_store"
  unfolding large_buy by (simp add: run_defs)

subsection \<open>Conservation\<close>

text \<open>
  C6. The same two buys, from the empty store: no transfer, no sale. After the first
  buy the lots of the holder add up to what it bought, \<open>2^62\<close>. The second buy leaves
  its lot and no update of the holder row: the lots add up to \<open>2^63\<close>, while
  \<open>total_bought - total_sold\<close> is still \<open>2^62\<close>.
\<close>

theorem lots_exceed_the_position:
  "transactionType tx_buy_G = Buy \<and> transactionType tx_buy_H = Buy
   \<and> map (\<lambda>h. (holder_lot_sum (cost_basis (ingest empty_database [tx_buy_G])) (h_id h),
               total_bought h - total_sold h))
         (holders (ingest empty_database [tx_buy_G]))
       = [(4611686018427387904, 4611686018427387904)]
   \<and> map (\<lambda>h. (holder_lot_sum (cost_basis (ingest empty_database [tx_buy_G, tx_buy_H]))
                 (h_id h),
               total_bought h - total_sold h))
         (holders (ingest empty_database [tx_buy_G, tx_buy_H]))
       = [(9223372036854775808, 4611686018427387904)]"
  by (simp add: holder_lot_sum_def run_defs)

section \<open>Store failures\<close>

subsection \<open>What a rollback undoes\<close>

text \<open>
  Whatever statement fails, the tables written through the client of
  \<^verbatim>\<open>processTransaction\<close> are as before: no token, transaction or holder row of the
  failed call is committed. When the failing statement is the ledger call or an earlier
  one, \<open>cost_basis\<close> is as before too.
\<close>

lemma upft_threw_holders:
  "updatePositionForTransaction d hid cp t txid f = (Threw e, d', lg)
   \<Longrightarrow> holders d' = holders d \<and> tokens d' = tokens d \<and> transactions d' = transactions d"
  by (cases "transactionType t")
     (auto simp: updatePositionForTransaction_def Let_def
        split: if_splits prod.splits option.splits sum.splits)

lemma threw_keeps_client_tables:
  assumes "processTransaction d t f = (Threw e, d', lg)"
  shows "tokens d' = tokens d \<and> transactions d' = transactions d \<and> holders d' = holders d"
  using assms
  by (auto simp: processTransaction_def rollback_def Let_def
        split: if_splits prod.splits outcome.splits)

lemma upft_ledger_fault:
  "cost_basis (fst (snd (updatePositionForTransaction d0 hid cp t txid (Some LedgerOp))))
     = cost_basis d0"
  by (cases "transactionType t")
     (auto simp: updatePositionForTransaction_def Let_def
        split: prod.splits option.splits sum.splits)

lemma uhp_early_fault:
  assumes "s = EnsureHolder \<or> s = LedgerOp"
  shows "cost_basis (fst (snd (updateHolderPosition d0 tid w t txid (Some s)))) = cost_basis d0"
  using assms upft_ledger_fault
  by (auto simp: updateHolderPosition_def split: option.splits)

lemma threw_before_ledger_keeps_lots:
  assumes res: "processTransaction d t (Some s) = (Threw e, d', lg)"
    and s: "s \<in> {ExistsCheck, EnsureToken, InsertTransaction, EnsureHolder, LedgerOp}"
  shows "cost_basis d' = cost_basis d"
proof -
  obtain tokenId d1 where e1: "ensureTokenExists d (tokenAddress t) = (tokenId, d1)"
    by (cases "ensureTokenExists d (tokenAddress t)")
  have cb1: "cost_basis d1 = cost_basis d"
    using ensureToken_keeps(3) [of d "tokenAddress t"] e1 by simp
  let ?d2 = "d1\<lparr>transactions := transactions d1 @ [transaction_row_of (id_seq d1) tokenId t],
               id_seq := Suc (id_seq d1)\<rparr>"
  obtain r d3 lg3 where u:
    "updateHolderPosition ?d2 tokenId (walletAddress t) t (id_seq d1) (Some s) = (r, d3, lg3)"
    by (cases "updateHolderPosition ?d2 tokenId (walletAddress t) t (id_seq d1) (Some s)")
  have cb3: "cost_basis d3 = cost_basis d" if "s = EnsureHolder \<or> s = LedgerOp"
    using uhp_early_fault [OF that, of ?d2 tokenId "walletAddress t" t "id_seq d1"] u cb1
    by simp
  from s consider "s = ExistsCheck" | "s = EnsureToken" | "s = InsertTransaction"
    | "s = EnsureHolder \<or> s = LedgerOp" by auto
  then show ?thesis
  proof cases
    case 1
    with res show ?thesis by (simp add: processTransaction_def)
  next
    case 2
    with res show ?thesis by (simp add: processTransaction_def split: if_splits)
  next
    case 3
    with res e1 cb1 show ?thesis
      by (auto simp: processTransaction_def rollback_def split: if_splits)
  next
    case 4
    then have "s \<noteq> ExistsCheck" "s \<noteq> EnsureToken" "s \<noteq> InsertTransaction" "s \<noteq> Commit"
      by auto
    with res e1 u cb3 [OF 4] show ?thesis
      by (auto simp: processTransaction_def rollback_def Let_def
            split: if_splits outcome.splits)
  qed
qed

subsection \<open>A failure after the ledger call\<close>

text \<open>
  C2. The holder has bought 100 (event A); the buy event B is applied and the store
  rejects the UPDATE of the holder row. \<^verbatim>\<open>processTransaction\<close> rolls its transaction
  back, logs and rethrows: the tokens, transactions and holders tables are as before,
  the signature of B is not committed and the holder row still says that 100 were
  bought. The lot of 100 that \<^verbatim>\<open>addPurchase\<close> inserted through its own connection is
  committed: the holder has two lots. When B is delivered again it is applied in full:
  the holder then has three lots of 100 and \<open>total_bought = 200\<close>.
\<close>

theorem failed_update_keeps_lot:
  "fst failed_buy = Threw (StoreError UpdateHolder)
   \<and> snd (snd failed_buy) = [Error_Transaction ''sigB'']
   \<and> tokens (fst (snd failed_buy)) = tokens (ingest empty_database [tx_buy_A])
   \<and> transactions (fst (snd failed_buy)) = transactions (ingest empty_database [tx_buy_A])
   \<and> holders (fst (snd failed_buy)) = holders (ingest empty_database [tx_buy_A])
   \<and> map tx_signature (transactions (fst (snd failed_buy))) = [''sigA'']
   \<and> map (\<lambda>h. (h_id h, total_bought h)) (holders (fst (snd failed_buy))) = [(2, 100)]
   \<and> map (\<lambda>e. (holder_id e, remaining_amount e))
         (cost_basis (ingest empty_database [tx_buy_A])) = [(2, 100)]
   \<and> map (\<lambda>e. (holder_id e, remaining_amount e)) (cost_basis (fst (snd failed_buy)))
       = [(2, 100), (2, 100)]
   \<and> map (\<lambda>e. (holder_id e, remaining_amount e))
         (cost_basis (apply_transaction (fst (snd failed_buy)) tx_buy_B))
       = [(2, 100), (2, 100), (2, 100)]
   \<and> map (\<lambda>h. (h_id h, total_bought h, total_sold h))
         (holders (apply_transaction (fst (snd failed_buy)) tx_buy_B)) = [(2, 200, 0)]"
  by (simp add: failed_buy_def run_defs)
subsection \<open>A failure during a drain\<close>

lemma drain_resolved_empty:
  "drain fs d q = (Resolved, d', q', lg) \<Longrightarrow> q' = []"
proof (induction q arbitrary: fs d lg)
  case Nil
  then show ?case by simp
next
  case (Cons t q)
  then show ?case
    by (auto split: prod.splits outcome.splits)
qed

lemma drain_append:
  assumes "drain fs d pre = (Resolved, d1, q1, lg1)"
  shows "drain fs d (pre @ rest) =
           (case drain (drop (length pre) fs) d1 rest of
              (r, d'', q', lg') \<Rightarrow> (r, d'', q', lg1 @ lg'))"
  using assms
proof (induction pre arbitrary: fs d lg1 q1)
  case Nil
  then show ?case by (auto split: prod.splits)
next
  case (Cons t pre)
  obtain r0 d0 lg0 where pt: "processTransaction d t (next_fault fs) = (r0, d0, lg0)"
    by (cases "processTransaction d t (next_fault fs)")
  show ?case
  proof (cases r0)
    case Resolved
    obtain r d'' q' lg' where dr: "drain (tl fs) d0 pre = (r, d'', q', lg')"
      by (cases "drain (tl fs) d0 pre")
    with Cons.prems pt Resolved have eq: "r = Resolved" "d'' = d1" "lg1 = lg0 @ lg'"
      by simp_all
    from Cons.IH [of "tl fs" d0 q' lg'] dr eq
    have "drain (tl fs) d0 (pre @ rest) =
           (case drain (drop (length pre) (tl fs)) d1 rest of
              (r, d'', q', lg'') \<Rightarrow> (r, d'', q', lg' @ lg''))" by simp
    then show ?thesis
      using pt Resolved eq by (simp add: drop_Suc split: prod.splits)
  next
    case (Threw e)
    with Cons.prems pt show ?thesis by simp
  qed
qed


text \<open>
  C3, as the code has it. When applying a queued transaction fails, \<^verbatim>\<open>processQueue\<close>
  catches the failure and logs it (it does not throw), and the drain ends there: the
  items before the failing one have been applied in arrival order, the failing item has
  left the queue, and every item behind it is still in the queue, in arrival order and
  not applied, with \<open>isProcessing\<close> cleared. The next arrival
  (\<^verbatim>\<open>handleTransaction\<close>) starts a drain of the items left, in arrival order,
  followed by the arrival.
\<close>

theorem failure_ends_the_drain:
  assumes idle: "\<not> isProcessing p"
    and queue: "processingQueue p = pre @ t # post"
    and before: "drain fs (store p) pre = (Resolved, d1, [], lg1)"
    and fails: "processTransaction d1 t (next_fault (drop (length pre) fs)) = (Threw e, d2, lg2)"
  shows "processQueue fs p =
           p\<lparr>store := d2, processingQueue := post, isProcessing := False,
             logged := logged p @ lg1 @ lg2 @ [Error_Queue]\<rparr>
       \<and> handleTransaction fs' (processQueue fs p) t' =
           processQueue fs'
             (p\<lparr>store := d2, processingQueue := post @ [t'], isProcessing := False,
                logged := logged p @ lg1 @ lg2 @ [Error_Queue]\<rparr>)
       \<and> fst (snd (drain fs' d2 (post @ [t']))) =
           store (handleTransaction fs' (processQueue fs p) t')"
proof -
  have "drain fs (store p) (pre @ t # post) = (Threw e, d2, post, lg1 @ lg2)"
    using drain_append [OF before, of "t # post"] fails by simp
  with idle queue have 1: "processQueue fs p =
           p\<lparr>store := d2, processingQueue := post, isProcessing := False,
             logged := logged p @ lg1 @ lg2 @ [Error_Queue]\<rparr>"
    by (simp add: processQueue_def)
  have 2: "handleTransaction fs' (processQueue fs p) t' =
           processQueue fs'
             (p\<lparr>store := d2, processingQueue := post @ [t'], isProcessing := False,
                logged := logged p @ lg1 @ lg2 @ [Error_Queue]\<rparr>)"
    unfolding 1 by (cases p) (simp add: handleTransaction_def Let_def)
  have 3: "fst (snd (drain fs' d2 (post @ [t']))) =
           store (handleTransaction fs' (processQueue fs p) t')"
    unfolding 2 by (cases p) (simp add: processQueue_def split: prod.splits)
  from 1 2 3 show ?thesis by blast
qed

theorem failure_ends_the_drain_witness:
  "\<not> isProcessing stalled_processor
   \<and> processingQueue stalled_processor = [tx_buy_A] @ tx_buy_B # [tx_sell_C]
   \<and> fst (drain [None, Some UpdateHolder] (store stalled_processor) [tx_buy_A]) = Resolved
   \<and> fst (processTransaction (ingest empty_database [tx_buy_A]) tx_buy_B (Some UpdateHolder))
       = Threw (StoreError UpdateHolder)
   \<and> processingQueue (processQueue [None, Some UpdateHolder] stalled_processor) = [tx_sell_C]
   \<and> map tx_signature
        (transactions (store (processQueue [None, Some UpdateHolder] stalled_processor)))
       = [''sigA'']
   \<and> logged (processQueue [None, Some UpdateHolder] stalled_processor)
       = [Error_Transaction ''sigB'', Error_Queue]
   \<and> isProcessing (processQueue [None, Some UpdateHolder] stalled_processor) = False"
proof -
  have h1: "\<not> isProcessing stalled_processor" by (simp add: stalled_processor_def)
  have h2: "processingQueue stalled_processor = [tx_buy_A] @ tx_buy_B # [tx_sell_C]"
    by (simp add: stalled_processor_def)
  have h3: "drain [None, Some UpdateHolder] (store stalled_processor) [tx_buy_A]
              = (Resolved, ingest empty_database [tx_buy_A], [], [])"
    by (simp add: stalled_processor_def next_fault_def run_defs)
  obtain d2 where h4:
    "processTransaction (ingest empty_database [tx_buy_A]) tx_buy_B
       (next_fault (drop (length [tx_buy_A]) [None, Some UpdateHolder]))
       = (Threw (StoreError UpdateHolder), d2, [Error_Transaction ''sigB''])"
    and d2: "map tx_signature (transactions d2) = [''sigA'']"
    by (simp add: next_fault_def run_defs)
  have h4': "fst (processTransaction (ingest empty_database [tx_buy_A]) tx_buy_B (Some UpdateHolder))
       = Threw (StoreError UpdateHolder)"
    using h4 by (simp add: next_fault_def)
  from failure_ends_the_drain [OF h1 h2 h3 h4, THEN conjunct1] d2
  have "processingQueue (processQueue [None, Some UpdateHolder] stalled_processor) = [tx_sell_C]"
    "map tx_signature
        (transactions (store (processQueue [None, Some UpdateHolder] stalled_processor)))
       = [''sigA'']"
    "logged (processQueue [None, Some UpdateHolder] stalled_processor)
       = [Error_Transaction ''sigB'', Error_Queue]"
    "isProcessing (processQueue [None, Some UpdateHolder] stalled_processor) = False"
    by (simp_all add: stalled_processor_def)
  with h1 h2 h3 h4' show ?thesis by simp
qed

text \<open>
  C3 as stated fails: the first of three queued events fails at the INSERT of its
  transaction row; after the drain the two events behind it are still in the queue and
  nothing of them is in the store.
\<close>

theorem drain_stops_at_failure:
  "processingQueue (processQueue [Some InsertTransaction] stalled_processor)
     = [tx_buy_B, tx_sell_C]
   \<and> transactions (store (processQueue [Some InsertTransaction] stalled_processor)) = []
   \<and> cost_basis (store (processQueue [Some InsertTransaction] stalled_processor)) = []
   \<and> logged (processQueue [Some InsertTransaction] stalled_processor)
       = [Error_Transaction ''sigA'', Error_Queue]
   \<and> isProcessing (processQueue [Some InsertTransaction] stalled_processor) = False"
  by (simp add: processQueue_def stalled_processor_def next_fault_def run_defs)


section \<open>Properties of the analytics\<close>

subsection \<open>Profit and loss zones\<close>

















subsection \<open>Price levels\<close>

lemma price_levels_sorted:
  "sorted (map (\<lambda>l. - totalAmount l) (getHolderPriceLevels d tokenId priceRangePercent))"
  by (simp add: getHolderPriceLevels_def Let_def)

text \<open>
  The grouping loop keeps the keys of \<^verbatim>\<open>groupedData\<close> distinct, and it only moves
  figures: whatever the band, the amounts of the buckets add up to the amounts of the
  price rows, and the holder counts of the buckets add up to the holder counts of the
  price rows.
\<close>

lemma group_step_keys:
  "map fst (group_step band g row) =
     (if find_group_key band (pr_price row) g \<in> set (map fst g) then map fst g
      else map fst g @ [find_group_key band (pr_price row) g])"
  by (auto simp: group_step_def Let_def split: prod.splits)

lemma group_step_distinct:
  "distinct (map fst g) \<Longrightarrow> distinct (map fst (group_step band g row))"
  by (simp add: group_step_keys)

lemma sum_update_key:
  assumes "distinct (map fst g)" "k \<in> set (map fst g)"
  shows "(\<Sum>(k', x)\<leftarrow>map (\<lambda>(k', x). if k' = k then (k', upd x) else (k', x)) g. f x)
       = (\<Sum>(k', x)\<leftarrow>g. f x) + (f (upd (the (map_of g k))) - f (the (map_of g k)) :: rat)"
  using assms
proof (induction g)
  case Nil
  then show ?case by simp
next
  case (Cons a g)
  obtain k0 x0 where a: "a = (k0, x0)" by (cases a)
  show ?case
  proof (cases "k0 = k")
    case True
    with Cons.prems a have "k \<notin> set (map fst g)" by simp
    then have "map (\<lambda>(k', x). if k' = k then (k', upd x) else (k', x)) g = g"
      by (intro map_idI) force
    with True a show ?thesis by simp
  next
    case False
    with Cons a show ?thesis by simp
  qed
qed

lemma group_step_totals:
  assumes "distinct (map fst g)"
  shows "(\<Sum>(k, x)\<leftarrow>group_step band g row. g_totalAmount x)
           = (\<Sum>(k, x)\<leftarrow>g. g_totalAmount x) + pr_total_amount row"
    and "(\<Sum>(k, x)\<leftarrow>group_step band g row. rat_of_nat (g_holderCount x))
           = (\<Sum>(k, x)\<leftarrow>g. rat_of_nat (g_holderCount x)) + rat_of_nat (pr_holder_count row)"
proof -
  let ?k = "find_group_key band (pr_price row) g"
  show "(\<Sum>(k, x)\<leftarrow>group_step band g row. g_totalAmount x)
           = (\<Sum>(k, x)\<leftarrow>g. g_totalAmount x) + pr_total_amount row"
  proof (cases "?k \<in> set (map fst g)")
    case True
    from sum_update_key [OF assms True, where
        upd = "\<lambda>x. x\<lparr>g_totalAmount := g_totalAmount x + pr_total_amount row,
               g_holderCount := g_holderCount x + pr_holder_count row\<rparr>"
        and f = g_totalAmount]
    show ?thesis using True by (simp add: group_step_def Let_def)
  next
    case False
    then show ?thesis by (simp add: group_step_def Let_def)
  qed
  show "(\<Sum>(k, x)\<leftarrow>group_step band g row. rat_of_nat (g_holderCount x))
           = (\<Sum>(k, x)\<leftarrow>g. rat_of_nat (g_holderCount x)) + rat_of_nat (pr_holder_count row)"
  proof (cases "?k \<in> set (map fst g)")
    case True
    from sum_update_key [OF assms True, where
        upd = "\<lambda>x. x\<lparr>g_totalAmount := g_totalAmount x + pr_total_amount row,
               g_holderCount := g_holderCount x + pr_holder_count row\<rparr>"
        and f = "\<lambda>x. rat_of_nat (g_holderCount x)"]
    show ?thesis using True by (simp add: group_step_def Let_def)
  next
    case False
    then show ?thesis by (simp add: group_step_def Let_def)
  qed
qed

lemma grouping_totals:
  assumes "distinct (map fst g)"
  shows "distinct (map fst (foldl (group_step band) g rows))
       \<and> (\<Sum>(k, x)\<leftarrow>foldl (group_step band) g rows. g_totalAmount x)
           = (\<Sum>(k, x)\<leftarrow>g. g_totalAmount x) + (\<Sum>r\<leftarrow>rows. pr_total_amount r)
       \<and> (\<Sum>(k, x)\<leftarrow>foldl (group_step band) g rows. rat_of_nat (g_holderCount x))
           = (\<Sum>(k, x)\<leftarrow>g. rat_of_nat (g_holderCount x))
             + (\<Sum>r\<leftarrow>rows. rat_of_nat (pr_holder_count r))"
  using assms
proof (induction rows arbitrary: g)
  case Nil
  then show ?case by simp
next
  case (Cons r rows)
  note d = group_step_distinct [OF Cons.prems, of band r]
  from Cons.IH [OF d] group_step_totals [OF Cons.prems, of band r]
  show ?case by (simp add: add.assoc)
qed

text \<open>
  C9. One holder owns two lots, at 100 and at 101. With a band of 5% both prices fall
  into one bucket (level 100, total amount 20). The query counts the distinct holders
  of each price (1 and 1) and the grouping loop adds the counts: the bucket reports 2
  holders, while one holder owns all lots of the bucket.
\<close>

theorem holder_counted_twice:
  "getHolderPriceLevels bucket_store 0 5 =
     [\<lparr>priceLevel = 100, holderCount = 2, totalAmount = 20, percentageOfSupply = 100\<rparr>]
   \<and> remdups (map holder_id (token_lots bucket_store 0)) = [1]"
  by (simp add: getHolderPriceLevels_def price_rows_def token_lots_def circulating_supply_def
        group_step_def find_group_key_def within_band_def bucket_store_def Let_def)


end
